theory Spec2Isabelle
  imports Complex_Main
begin

section \<open>Errors and float powers\<close>

text \<open>
  The exceptions the script can raise: a division of two builtin floats by zero,
  \<open>results[0]\<close> on an empty list, a float power that is out of range, and a bound that the
  model's setter refuses.
\<close>

datatype error = ZeroDivisionError | IndexError | OverflowError | ValueError

fun and_then :: "error + 'a \<Rightarrow> ('a \<Rightarrow> error + 'b) \<Rightarrow> error + 'b" where
  "and_then (Inl e) f = Inl e"
| "and_then (Inr v) f = f v"

text \<open>
  The script computes with Python floats. They are idealised here as real numbers, with
  no rounding error. What is kept of the float format is its range: \<open>float_max\<close> is the
  largest finite double, and \<open>x ** y\<close> on builtin floats raises \<open>OverflowError\<close> when the
  power exceeds it. The base is never negative where the script takes a power, and
  \<open>powr\<close> is 0 at base 0, as \<open>0.0 ** 1.8\<close> is. \<open>np.exp\<close> does not raise: out of range it
  returns infinity, which the \<open>min\<close> with 0.95 absorbs, so the penalty is the same as
  over the reals.
\<close>

definition float_max :: real where
  "float_max = (2 ^ 53 - 1) * 2 ^ 971"

definition float_pow :: "real \<Rightarrow> real \<Rightarrow> error + real" where
  "float_pow x y = (if float_max < x powr y then Inl OverflowError else Inr (x powr y))"

section \<open>Stress functions\<close>

definition calculate_stress_cost :: "real \<Rightarrow> error + real" where
  "calculate_stress_cost glucose_uptake =
     (let base_stress = \<bar>glucose_uptake\<bar> * 0.02
      in and_then (float_pow base_stress 1.8) (\<lambda>p. Inr (min p 200.0)))"

definition calculate_stress_penalty :: "real \<Rightarrow> real" where
  "calculate_stress_penalty glucose_uptake =
     (let glucose = \<bar>glucose_uptake\<bar>;
          penalty = (if glucose \<le> 30.0 then exp (glucose / 35) / 20
                     else if glucose \<le> 80.0 then exp (glucose / 25) / 15
                     else exp (glucose / 40) / 10)
      in min penalty 0.95)"

section \<open>Numbers as the script holds them\<close>

text \<open>
  What \<open>/\<close> does at a zero divisor depends on how the operands are represented at run
  time: two builtin Python floats raise \<open>ZeroDivisionError\<close>, while a division in which
  either operand is a \<open>numpy.float64\<close> returns an infinity or NaN (and only warns).
  A number therefore carries its representation. \<open>round\<close> and \<open>abs\<close> keep it; the
  literal \<open>0.0\<close> is a builtin float.
\<close>

datatype number = Builtin real | Numpy real

fun val :: "number \<Rightarrow> real" where
  "val (Builtin x) = x"
| "val (Numpy x) = x"

definition truthy :: "number \<Rightarrow> bool" where
  "truthy x = (val x \<noteq> 0)"

definition round_half_even :: "real \<Rightarrow> int" where
  "round_half_even y =
     (let f = \<lfloor>y\<rfloor>; d = y - of_int f
      in if d < 1 / 2 then f
         else if 1 / 2 < d then f + 1
         else if even f then f else f + 1)"

definition round2 :: "real \<Rightarrow> real" where
  "round2 x = of_int (round_half_even (x * 100)) / 100"

fun py_round2 :: "number \<Rightarrow> number" where
  "py_round2 (Builtin x) = Builtin (round2 x)"
| "py_round2 (Numpy x) = Numpy (round2 x)"

fun py_abs :: "number \<Rightarrow> number" where
  "py_abs (Builtin x) = Builtin \<bar>x\<bar>"
| "py_abs (Numpy x) = Numpy \<bar>x\<bar>"

datatype quotient = Finite real | Infinite | NaN

fun true_div :: "number \<Rightarrow> number \<Rightarrow> error + quotient" where
  "true_div (Builtin a) (Builtin b) =
     (if b = 0 then Inl ZeroDivisionError else Inr (Finite (a / b)))"
| "true_div x y =
     (if val y = 0 then (if val x = 0 then Inr NaN else Inr Infinite)
      else Inr (Finite (val x / val y)))"

section \<open>Gears, the metabolic model and the solver\<close>

record gear =
  name :: string
  glucose :: real
  oxygen :: real
  burden :: real

definition gears :: "gear list" where
  "gears =
    [\<lparr>name = ''Gear 1'', glucose = -10.0, oxygen = -18.0, burden = 0.0\<rparr>,
     \<lparr>name = ''Gear 2'', glucose = -30.0, oxygen = -30.0, burden = 0.05\<rparr>,
     \<lparr>name = ''Gear 3'', glucose = -80.0, oxygen = -60.0, burden = 0.12\<rparr>,
     \<lparr>name = ''Gear 4'', glucose = -150.0, oxygen = -100.0, burden = 0.18\<rparr>,
     \<lparr>name = ''Gear 5'', glucose = -250.0, oxygen = -150.0, burden = 0.25\<rparr>]"

text \<open>
  The model is the external COBRA object. Only what the script touches is kept: the
  lower and the upper bound of each reaction, by reaction id; every reaction the script
  names exists in the model. Assigning a bound goes through the setter of the COBRA
  reaction, which raises \<open>ValueError\<close> when the lower bound would exceed the upper one
  and assigns otherwise.
\<close>

record model =
  lower_bound :: "string \<Rightarrow> real"
  upper_bound :: "string \<Rightarrow> real"

definition set_lower_bound :: "string \<Rightarrow> real \<Rightarrow> model \<Rightarrow> error + model" where
  "set_lower_bound r v m =
     (if upper_bound m r < v then Inl ValueError
      else Inr (m\<lparr>lower_bound := (lower_bound m)(r := v)\<rparr>))"

definition set_upper_bound :: "string \<Rightarrow> real \<Rightarrow> model \<Rightarrow> error + model" where
  "set_upper_bound r v m =
     (if v < lower_bound m r then Inl ValueError
      else Inr (m\<lparr>upper_bound := (upper_bound m)(r := v)\<rparr>))"

abbreviation BIOMASS :: string where
  "BIOMASS \<equiv> ''BIOMASS_Ec_iML1515_core_75p37M''"

text \<open>
  \<open>model.optimize()\<close> is external: it is a parameter \<open>optimize\<close> of the sweep, any
  function from the model's bounds to a solution. The objective value may be absent
  (\<open>None\<close>); the fluxes are a mapping from reaction id to number.
\<close>

record solution =
  objective_value :: "number option"
  fluxes :: "string \<rightharpoonup> number"

definition fluxes_get :: "solution \<Rightarrow> string \<Rightarrow> number \<Rightarrow> number" where
  "fluxes_get s r d = (case fluxes s r of None \<Rightarrow> d | Some v \<Rightarrow> v)"

section \<open>The sweep\<close>

text \<open>
  One entry of \<open>results\<close>. The fields stand for the dictionary keys \<open>Gear\<close>,
  \<open>Growth Rate\<close>, \<open>ATP Production\<close>, \<open>Glucose Uptake\<close>, \<open>Lactate Production\<close> and
  \<open>Ethanol Production\<close> (the units in the keys are left out).
\<close>

record result =
  Gear :: string
  Growth_Rate :: number
  ATP_Production :: number
  Glucose_Uptake :: number
  Lactate_Production :: number
  Ethanol_Production :: number

text \<open>
  Lines 45 to 61 of the loop body: the bounds one gear sets before its solve, in the
  order of the script. The first assignment that is refused, or the power that
  overflows, ends the script.
\<close>

definition apply_gear :: "gear \<Rightarrow> model \<Rightarrow> error + model" where
  "apply_gear g m =
     and_then (set_lower_bound ''EX_glc__D_e'' (glucose g) m) (\<lambda>m1.
     and_then (set_lower_bound ''EX_o2_e'' (oxygen g) m1) (\<lambda>m2.
     let base_biomass = upper_bound m2 BIOMASS;
         stress_penalty = calculate_stress_penalty (glucose g);
         biomass_bound = base_biomass * max 0.001 (1 - burden g - stress_penalty)
     in
     and_then (set_upper_bound BIOMASS biomass_bound m2) (\<lambda>m3.
     and_then (calculate_stress_cost (glucose g)) (\<lambda>cost.
     and_then (set_lower_bound ''ATPM'' (35.0 + cost) m3) (\<lambda>m4.
     and_then (set_lower_bound ''EX_lac__D_e'' 0.0 m4) (\<lambda>m5.
     and_then (set_upper_bound ''EX_lac__D_e'' 1000.0 m5) (\<lambda>m6.
     and_then (set_lower_bound ''EX_etoh_e'' 0.0 m6) (\<lambda>m7.
     set_upper_bound ''EX_etoh_e'' 1000.0 m7))))))))"

text \<open>Lines 67 to 80: the metrics read back from one solution.\<close>

definition record_result :: "gear \<Rightarrow> solution \<Rightarrow> result" where
  "record_result g s =
     (let growth = objective_value s;
          atp = fluxes_get s ''ATPS4rpp'' (Builtin 0.0);
          glucose = fluxes_get s ''EX_glc__D_e'' (Builtin 0.0);
          lactate = fluxes_get s ''EX_lac__D_e'' (Builtin 0.0);
          ethanol = fluxes_get s ''EX_etoh_e'' (Builtin 0.0)
      in \<lparr>Gear = name g,
          Growth_Rate = (case growth of
                           None \<Rightarrow> Builtin 0.0
                         | Some v \<Rightarrow> if truthy v then py_round2 v else Builtin 0.0),
          ATP_Production = (if truthy atp then py_round2 atp else Builtin 0.0),
          Glucose_Uptake = py_round2 glucose,
          Lactate_Production = py_round2 lactate,
          Ethanol_Production = py_round2 ethanol\<rparr>)"

text \<open>
  The loop of lines 41 to 80. The model is shared and mutated in place, so it is threaded
  through the iterations; \<open>results\<close> is the list appended to. \<open>run_sweep\<close> is the list
  the script holds after the loop.
\<close>

fun sweep :: "(model \<Rightarrow> solution) \<Rightarrow> gear list \<Rightarrow> model \<Rightarrow> result list
    \<Rightarrow> error + (result list \<times> model)" where
  "sweep optimize [] m results = Inr (results, m)"
| "sweep optimize (g # gs) m results =
     and_then (apply_gear g m) (\<lambda>m'.
       let s = optimize m'
       in sweep optimize gs m' (results @ [record_result g s]))"

definition run_sweep :: "(model \<Rightarrow> solution) \<Rightarrow> gear list \<Rightarrow> model
    \<Rightarrow> error + result list" where
  "run_sweep optimize gs m = and_then (sweep optimize gs m []) (\<lambda>(results, m'). Inr results)"

text \<open>The state of the model at each gear's solve, in gear order.\<close>

fun solve_models :: "gear list \<Rightarrow> model \<Rightarrow> error + model list" where
  "solve_models [] m = Inr []"
| "solve_models (g # gs) m =
     and_then (apply_gear g m) (\<lambda>m'.
     and_then (solve_models gs m') (\<lambda>ms. Inr (m' # ms)))"

section \<open>Fold improvements\<close>

record fold_change =
  glucose_fold :: quotient
  atp_fold :: quotient
  growth_fold :: quotient

text \<open>Lines 90 to 92: one iteration, for baseline \<open>gear1\<close> and a later result.\<close>

definition fold_of :: "result \<Rightarrow> result \<Rightarrow> error + fold_change" where
  "fold_of gear1 r =
     (case true_div (py_abs (Glucose_Uptake r)) (py_abs (Glucose_Uptake gear1)) of
        Inl e \<Rightarrow> Inl e
      | Inr gf \<Rightarrow>
     (case true_div (ATP_Production r) (ATP_Production gear1) of
        Inl e \<Rightarrow> Inl e
      | Inr af \<Rightarrow>
     (case true_div (Growth_Rate r) (Growth_Rate gear1) of
        Inl e \<Rightarrow> Inl e
      | Inr rf \<Rightarrow> Inr \<lparr>glucose_fold = gf, atp_fold = af, growth_fold = rf\<rparr>)))"

fun fold_loop :: "result \<Rightarrow> result list \<Rightarrow> error + fold_change list" where
  "fold_loop gear1 [] = Inr []"
| "fold_loop gear1 (r # rs) =
     (case fold_of gear1 r of
        Inl e \<Rightarrow> Inl e
      | Inr f \<Rightarrow> (case fold_loop gear1 rs of Inl e \<Rightarrow> Inl e | Inr fs \<Rightarrow> Inr (f # fs)))"

text \<open>
  Lines 88 to 96; \<open>results[0]\<close> raises \<open>IndexError\<close> on an empty list. The ratios are
  only printed, so the value returned is the list of the triples printed. The plotting
  code after line 96 is not part of the model.
\<close>

definition fold_improvements :: "result list \<Rightarrow> error + fold_change list" where
  "fold_improvements results =
     (case results of
        [] \<Rightarrow> Inl IndexError
      | gear1 # rest \<Rightarrow> fold_loop gear1 rest)"

section \<open>Auxiliary definitions and example inputs\<close>

text \<open>
  The factor by which one gear scales the biomass upper bound it reads (line 51), and
  the gear check that the specification words: burden in \<open>[0, 1)\<close> and both uptake
  bounds negative. The script contains no such check; \<open>spec_valid_gear\<close> is written
  from the specification to compare the code with.
\<close>

definition capacity_factor :: "gear \<Rightarrow> real" where
  "capacity_factor g = max 0.001 (1 - burden g - calculate_stress_penalty (glucose g))"


text \<open>
  Bounds under which no assignment of a sweep over \<open>gs\<close> is refused and no power
  overflows: every gear's uptake bounds stay below the upper bounds of the exchange
  reactions, the biomass reaction has a lower bound of at most 0 and a non-negative
  upper bound, and the upper bounds of maintenance, lactate and ethanol leave room for
  what the loop assigns. The condition is sufficient, not necessary.
\<close>

definition accepts :: "model \<Rightarrow> gear list \<Rightarrow> bool" where
  "accepts m gs =
     ((\<forall>g \<in> set gs. glucose g \<le> upper_bound m ''EX_glc__D_e''
                   \<and> oxygen g \<le> upper_bound m ''EX_o2_e''
                   \<and> (\<bar>glucose g\<bar> * 0.02) powr 1.8 \<le> float_max)
      \<and> lower_bound m BIOMASS \<le> 0 \<and> 0 \<le> upper_bound m BIOMASS
      \<and> 235 \<le> upper_bound m ''ATPM''
      \<and> 0 \<le> upper_bound m ''EX_lac__D_e''
      \<and> 0 \<le> upper_bound m ''EX_etoh_e'')"

text \<open>
  Example inputs: a freshly loaded model whose bounds are all \<open>-1000\<close> and \<open>1000\<close>
  (so the nominal biomass upper bound is 1000), a gear that breaks every rule of the
  specification, a gear whose glucose bound lies above the upper bound of the glucose
  exchange, a solver that never finds an objective value but reports a glucose flux,
  and four solutions. Fluxes arrive as \<open>numpy.float64\<close>, the objective value as a
  builtin float.
\<close>

definition nominal_model :: model where
  "nominal_model = \<lparr>lower_bound = (\<lambda>r. -1000.0), upper_bound = (\<lambda>r. 1000.0)\<rparr>"



definition stalled_solver :: "model \<Rightarrow> solution" where
  "stalled_solver m =
     \<lparr>objective_value = None, fluxes = [''EX_glc__D_e'' \<mapsto> Numpy (- 10.0)]\<rparr>"

definition baseline_solution :: solution where
  "baseline_solution =
     \<lparr>objective_value = Some (Builtin 0.624),
      fluxes = [''ATPS4rpp'' \<mapsto> Numpy 50.004, ''EX_glc__D_e'' \<mapsto> Numpy (- 10.004)]\<rparr>"

definition shifted_solution :: solution where
  "shifted_solution =
     \<lparr>objective_value = Some (Builtin 1.236),
      fluxes = [''ATPS4rpp'' \<mapsto> Numpy 75.004, ''EX_glc__D_e'' \<mapsto> Numpy (- 30.012)]\<rparr>"

definition fasting_solution :: solution where
  "fasting_solution =
     \<lparr>objective_value = Some (Builtin 0.624),
      fluxes = [''ATPS4rpp'' \<mapsto> Numpy 50.004, ''EX_glc__D_e'' \<mapsto> Numpy 0.0]\<rparr>"

definition no_solution :: solution where
  "no_solution = \<lparr>objective_value = None, fluxes = Map.empty\<rparr>"

section \<open>The range of floats\<close>

lemma float_max_large: "(10::real) ^ 300 \<le> float_max"
  by (simp add: float_max_def)

lemma float_max_small: "float_max < (10::real) ^ 351"
  by (simp add: float_max_def)

lemma pow_in_range:
  assumes "0 \<le> x" and "x \<le> 200"
  shows "x powr (9 / 5) \<le> float_max"
proof -
  have "x powr (9 / 5) \<le> (200::real) powr (9 / 5)"
    using assms by (intro powr_mono2) auto
  also have "\<dots> \<le> (200::real) powr 2"
    by (rule powr_mono) auto
  also have "\<dots> = 200 ^ 2" by simp
  also have "\<dots> \<le> (10::real) ^ 300" by simp
  finally show ?thesis using float_max_large by simp
qed

lemma pow_out_of_range: "float_max < (10 ^ 200 * 0.02) powr (1.8 :: real)"
proof -
  have a: "(10::real) powr (real 195) = 10 ^ 195"
    by (rule powr_realpow) simp
  have b: "(10::real) powr (real 351) = 10 ^ 351"
    by (rule powr_realpow) simp
  have c: "real 195 * 1.8 = real 351" by simp
  have "(10::real) ^ 351 = 10 powr (real 195 * 1.8)"
    unfolding c b ..
  also have "\<dots> = (10 powr (real 195)) powr 1.8"
    by (rule powr_powr [symmetric])
  also have "\<dots> = (10 ^ 195) powr 1.8"
    unfolding a ..
  also have "\<dots> \<le> (10 ^ 200 * 0.02) powr (1.8 :: real)"
    by (intro powr_mono2) auto
  finally show ?thesis using float_max_small by simp
qed

section \<open>Properties of the stress functions\<close>

text \<open>
  Claim C5. For every uptake magnitude \<open>g \<ge> 0\<close> the capacity penalty
  (\<open>calculate_stress_penalty\<close>) is the minimum of 0.95 and the formula of the regime of
  \<open>g\<close>: \<open>exp (g/35) / 20\<close> when \<open>g \<le> 30\<close>, \<open>exp (g/25) / 15\<close> when \<open>30 < g \<le> 80\<close>,
  \<open>exp (g/40) / 10\<close> when \<open>g > 80\<close>. The boundaries belong to the lower regime: 30 uses
  the first formula and 80 the second.
\<close>

theorem calculate_stress_penalty_regimes:
  assumes "0 \<le> g"
  shows "(g \<le> 30 \<longrightarrow> calculate_stress_penalty g = min 0.95 (exp (g / 35) / 20))
       \<and> (30 < g \<and> g \<le> 80 \<longrightarrow> calculate_stress_penalty g = min 0.95 (exp (g / 25) / 15))
       \<and> (80 < g \<longrightarrow> calculate_stress_penalty g = min 0.95 (exp (g / 40) / 10))"
  using assms by (simp add: calculate_stress_penalty_def Let_def min.commute)

theorem calculate_stress_penalty_regimes_witness:
  "calculate_stress_penalty 30 = min 0.95 (exp (30 / 35) / 20)
   \<and> calculate_stress_penalty 80 = min 0.95 (exp (80 / 25) / 15)
   \<and> calculate_stress_penalty 81 = min 0.95 (exp (81 / 40) / 10)
   \<and> calculate_stress_penalty 0 = 1 / 20"
  using calculate_stress_penalty_regimes [of 30] calculate_stress_penalty_regimes [of 80]
    calculate_stress_penalty_regimes [of 81] calculate_stress_penalty_regimes [of 0]
  by simp

text \<open>
  Claim C6, as the code has it. For every uptake magnitude \<open>g \<ge> 0\<close> whose power
  \<open>(g * 0.02) ^ 1.8\<close> does not exceed the largest finite float (\<open>g\<close> up to about
  \<open>8.9e172\<close>), the maintenance cost (\<open>calculate_stress_cost\<close>) is
  \<open>min ((g * 0.02) ^ 1.8) 200\<close>, it is at most 200, and it is not smaller than the cost at
  any smaller magnitude, which is given by the same formula. At \<open>g = 10000\<close> it is
  exactly 200. For a larger \<open>g\<close> the power raises \<open>OverflowError\<close> before the cap applies.
\<close>

theorem calculate_stress_cost_capped:
  assumes "0 \<le> g"
  shows "((g * 0.02) powr 1.8 \<le> float_max \<longrightarrow>
            calculate_stress_cost g = Inr (min ((g * 0.02) powr 1.8) 200.0)
          \<and> min ((g * 0.02) powr 1.8) 200.0 \<le> (200.0 :: real)
          \<and> (\<forall>g0. 0 \<le> g0 \<and> g0 \<le> g \<longrightarrow>
                calculate_stress_cost g0 = Inr (min ((g0 * 0.02) powr 1.8) 200.0)
              \<and> min ((g0 * 0.02) powr 1.8) 200.0 \<le> min ((g * 0.02) powr 1.8) (200.0 :: real)))
       \<and> (float_max < (g * 0.02) powr 1.8 \<longrightarrow> calculate_stress_cost g = Inl OverflowError)
       \<and> calculate_stress_cost 10000 = Inr 200.0"
proof -
  have formula: "calculate_stress_cost x = Inr (min ((x * 0.02) powr 1.8) 200.0)"
    if "0 \<le> x" and "(x * 0.02) powr 1.8 \<le> float_max" for x
    using that by (simp add: calculate_stress_cost_def float_pow_def Let_def)
  have below: "(g0 * 0.02) powr 1.8 \<le> (g * 0.02) powr (1.8 :: real)"
    if "0 \<le> g0" and "g0 \<le> g" for g0
    using that by (intro powr_mono2) auto
  have mono: "calculate_stress_cost g0 = Inr (min ((g0 * 0.02) powr 1.8) 200.0)
              \<and> min ((g0 * 0.02) powr 1.8) 200.0 \<le> min ((g * 0.02) powr 1.8) (200.0 :: real)"
    if r: "(g * 0.02) powr 1.8 \<le> float_max" and g0: "0 \<le> g0" "g0 \<le> g" for g0
  proof -
    have "(g0 * 0.02) powr 1.8 \<le> float_max"
      using below [OF g0] r by simp
    from formula [OF g0(1) this] below [OF g0] show ?thesis
      by (simp add: min.coboundedI1)
  qed
  have over: "calculate_stress_cost g = Inl OverflowError"
    if "float_max < (g * 0.02) powr 1.8"
    using that assms by (simp add: calculate_stress_cost_def float_pow_def Let_def)
  have "(200::real) powr 1 \<le> 200 powr (9 / 5)"
    by (rule powr_mono) auto
  moreover have "(200::real) powr (9 / 5) \<le> float_max"
    by (rule pow_in_range) simp_all
  ultimately have big: "calculate_stress_cost 10000 = Inr 200.0"
    by (simp add: calculate_stress_cost_def float_pow_def Let_def)
  from formula [OF assms] mono over big show ?thesis
    by (intro conjI impI allI) (simp_all)
qed

theorem calculate_stress_cost_capped_witness:
  "calculate_stress_cost 0 = Inr 0
   \<and> calculate_stress_cost 50 = Inr 1
   \<and> calculate_stress_cost 10000 = Inr 200
   \<and> calculate_stress_cost (10 ^ 201) = Inl OverflowError"
proof -
  have r: "((50::real) * 0.02) powr 1.8 \<le> float_max"
    using pow_in_range [of 1] by simp
  have z: "(0::real) \<le> 0 \<and> (0::real) \<le> 50" by simp
  have "(10 ^ 200 * 0.02) powr (1.8 :: real) \<le> (10 ^ 201 * 0.02) powr 1.8"
    by (intro powr_mono2) auto
  with pow_out_of_range have o: "float_max < (10 ^ 201 * 0.02) powr (1.8 :: real)"
    by simp
  have p: "(0::real) \<le> 10 ^ 201" by simp
  from calculate_stress_cost_capped [OF p] o
  have over: "calculate_stress_cost (10 ^ 201) = Inl OverflowError"
    by blast
  from calculate_stress_cost_capped [of 50] r z over show ?thesis
    by simp
qed

text \<open>
  Claim C6 as stated fails: at \<open>g = 10 ^ 200\<close> the cost is not 200, the script raises
  \<open>OverflowError\<close>.
\<close>

theorem calculate_stress_cost_overflows:
  "calculate_stress_cost (10 ^ 200) = Inl OverflowError"
  using pow_out_of_range by (simp add: calculate_stress_cost_def float_pow_def Let_def)

text \<open>
  Claim C7. For every uptake magnitude \<open>g \<ge> 0\<close> the capacity penalty lies between 0 and
  0.95, and it does not decrease from \<open>g\<close> to a larger \<open>g'\<close> of the same regime (both at
  most 30, both above 30 and at most 80, or both above 80).
\<close>

theorem calculate_stress_penalty_range_mono:
  assumes "0 \<le> g"
  shows "0 \<le> calculate_stress_penalty g \<and> calculate_stress_penalty g \<le> 0.95
       \<and> (\<forall>g'. g \<le> g' \<and> (g' \<le> 30 \<or> (30 < g \<and> g' \<le> 80) \<or> 80 < g)
              \<longrightarrow> calculate_stress_penalty g \<le> calculate_stress_penalty g')"
proof -
  have range: "0 \<le> calculate_stress_penalty g \<and> calculate_stress_penalty g \<le> 0.95"
    by (simp add: calculate_stress_penalty_def Let_def min_def)
  have mono: "calculate_stress_penalty g \<le> calculate_stress_penalty g'"
    if le: "g \<le> g'" and same: "g' \<le> 30 \<or> (30 < g \<and> g' \<le> 80) \<or> 80 < g" for g'
  proof -
    have pos: "0 \<le> g'" using assms le by simp
    from same consider (low) "g' \<le> 30" | (mid) "30 < g" "g' \<le> 80" | (high) "80 < g"
      by blast
    then show ?thesis
    proof cases
      case low
      have "min (exp (g / 35) / 20) 0.95 \<le> min (exp (g' / 35) / 20) (0.95::real)"
        using le by (intro min.mono) auto
      then show ?thesis
        using low le assms pos by (simp add: calculate_stress_penalty_def Let_def)
    next
      case mid
      have "min (exp (g / 25) / 15) 0.95 \<le> min (exp (g' / 25) / 15) (0.95::real)"
        using le by (intro min.mono) auto
      then show ?thesis
        using mid le assms pos by (simp add: calculate_stress_penalty_def Let_def)
    next
      case high
      have "min (exp (g / 40) / 10) 0.95 \<le> min (exp (g' / 40) / 10) (0.95::real)"
        using le by (intro min.mono) auto
      then show ?thesis
        using high le assms pos by (simp add: calculate_stress_penalty_def Let_def)
    qed
  qed
  from range mono show ?thesis by blast
qed

theorem calculate_stress_penalty_range_mono_witness:
  "0 \<le> calculate_stress_penalty 0 \<and> calculate_stress_penalty 0 \<le> 0.95
   \<and> calculate_stress_penalty 0 \<le> calculate_stress_penalty 30
   \<and> calculate_stress_penalty 31 \<le> calculate_stress_penalty 80
   \<and> calculate_stress_penalty 81 \<le> calculate_stress_penalty 100"
  using calculate_stress_penalty_range_mono [of 0] calculate_stress_penalty_range_mono [of 31]
    calculate_stress_penalty_range_mono [of 81]
  by simp

section \<open>Rounding and number helpers\<close>

lemma round_half_even_of_int: "round_half_even (of_int k) = k"
  by (simp add: round_half_even_def)

lemma round2_0: "round2 0 = 0"
  using round_half_even_of_int [of 0] by (simp add: round2_def)

lemma round_half_even_close: "\<bar>of_int (round_half_even y) - y\<bar> \<le> 1 / 2"
  unfolding round_half_even_def Let_def
  by (auto simp: abs_le_iff)

lemma round2_close: "\<bar>round2 x - x\<bar> \<le> 1 / 200"
proof -
  have "\<bar>round2 x - x\<bar> = \<bar>of_int (round_half_even (x * 100)) - x * 100\<bar> / 100"
    by (simp add: round2_def field_simps abs_divide)
  also have "\<dots> \<le> (1 / 2) / 100"
    using round_half_even_close [of "x * 100"] by (intro divide_right_mono) auto
  finally show ?thesis by simp
qed

lemma round2_grid: "\<exists>k::int. round2 x = of_int k / 100"
  by (auto simp: round2_def)

lemma val_py_round2: "val (py_round2 x) = round2 (val x)"
  by (cases x) simp_all

lemma val_py_abs: "val (py_abs x) = \<bar>val x\<bar>"
  by (cases x) simp_all

lemma py_round2_zero: "py_round2 (Builtin 0) = Builtin 0"
  by (simp add: round2_0)

lemma true_div_numpy_zero:
  "true_div x (Numpy 0) = Inr (if val x = 0 then NaN else Infinite)"
  "true_div (Numpy a) (Builtin 0) = Inr (if a = 0 then NaN else Infinite)"
  "true_div (Builtin a) (Builtin 0) = Inl ZeroDivisionError"
  by (cases x) simp_all

lemma true_div_Finite:
  "true_div x y = Inr (Finite q) \<Longrightarrow> q = val x / val y \<and> val y \<noteq> 0"
  by (cases x; cases y) (auto split: if_splits)

section \<open>What one gear and one solution do\<close>

lemma and_then_Inr: "and_then x f = Inr y \<longleftrightarrow> (\<exists>v. x = Inr v \<and> f v = Inr y)"
  by (cases x) simp_all

lemma set_lower_bound_Inr:
  "set_lower_bound r v m = Inr m' \<longleftrightarrow>
     v \<le> upper_bound m r \<and> m' = m\<lparr>lower_bound := (lower_bound m)(r := v)\<rparr>"
  by (auto simp: set_lower_bound_def)

lemma set_upper_bound_Inr:
  "set_upper_bound r v m = Inr m' \<longleftrightarrow>
     lower_bound m r \<le> v \<and> m' = m\<lparr>upper_bound := (upper_bound m)(r := v)\<rparr>"
  by (auto simp: set_upper_bound_def)

lemma calculate_stress_cost_Inr:
  "calculate_stress_cost x = Inr c \<longleftrightarrow>
     (\<bar>x\<bar> * 0.02) powr 1.8 \<le> float_max \<and> c = min ((\<bar>x\<bar> * 0.02) powr 1.8) 200"
  by (auto simp: calculate_stress_cost_def float_pow_def Let_def)

lemma apply_gear_Inr:
  "apply_gear g m = Inr m' \<longleftrightarrow>
     glucose g \<le> upper_bound m ''EX_glc__D_e''
     \<and> oxygen g \<le> upper_bound m ''EX_o2_e''
     \<and> lower_bound m BIOMASS \<le> upper_bound m BIOMASS * capacity_factor g
     \<and> (\<bar>glucose g\<bar> * 0.02) powr 1.8 \<le> float_max
     \<and> 35 + min ((\<bar>glucose g\<bar> * 0.02) powr 1.8) 200 \<le> upper_bound m ''ATPM''
     \<and> 0 \<le> upper_bound m ''EX_lac__D_e''
     \<and> 0 \<le> upper_bound m ''EX_etoh_e''
     \<and> m' = \<lparr>lower_bound = (lower_bound m)
                  (''EX_glc__D_e'' := glucose g, ''EX_o2_e'' := oxygen g,
                   ''ATPM'' := 35 + min ((\<bar>glucose g\<bar> * 0.02) powr 1.8) 200,
                   ''EX_lac__D_e'' := 0, ''EX_etoh_e'' := 0),
              upper_bound = (upper_bound m)
                  (BIOMASS := upper_bound m BIOMASS * capacity_factor g,
                   ''EX_lac__D_e'' := 1000, ''EX_etoh_e'' := 1000)\<rparr>"
  unfolding apply_gear_def Let_def
  by (auto simp: and_then_Inr set_lower_bound_Inr set_upper_bound_Inr
      calculate_stress_cost_Inr capacity_factor_def)

lemma capacity_factor_pos: "0.001 \<le> capacity_factor g"
  by (simp add: capacity_factor_def)

lemma calculate_stress_penalty_abs:
  "calculate_stress_penalty \<bar>x\<bar> = calculate_stress_penalty x"
  by (simp add: calculate_stress_penalty_def)

lemma calculate_stress_penalty_pos: "0 < calculate_stress_penalty x"
  by (simp add: calculate_stress_penalty_def Let_def min_def)

lemma capacity_factor_less_1: "0 \<le> burden g \<Longrightarrow> capacity_factor g < 1"
  using calculate_stress_penalty_pos [of "glucose g"] by (simp add: capacity_factor_def)

lemma exp_16_5: "(29 / 2 :: real) \<le> exp (16 / 5)"
proof -
  have "(7 / 5 :: real) \<le> exp (2 / 5)"
    using exp_ge_add_one_self [of "2 / 5 :: real"] by simp
  then have "(7 / 5 :: real) ^ 8 \<le> exp (2 / 5) ^ 8"
    by (intro power_mono) auto
  also have "exp (2 / 5 :: real) ^ 8 = exp (of_nat 8 * (2 / 5))"
    by (rule exp_of_nat_mult [symmetric])
  also have "\<dots> = exp (16 / 5)" by simp
  finally show ?thesis by (simp add: power_def)
qed

lemma factor_gear3: "capacity_factor (gears ! 2) = 0.001"
proof -
  have "(0.95::real) \<le> exp (80 / 25) / 15"
    using exp_16_5 by simp
  then have "calculate_stress_penalty (- 80) = 0.95"
    by (simp add: calculate_stress_penalty_def Let_def)
  then show ?thesis
    by (simp add: gears_def capacity_factor_def)
qed

lemma record_result_fields:
  "Gear (record_result g s) = name g"
  "Growth_Rate (record_result g s) =
     (case objective_value s of None \<Rightarrow> Builtin 0
      | Some v \<Rightarrow> if truthy v then py_round2 v else Builtin 0)"
  "ATP_Production (record_result g s) =
     (if truthy (fluxes_get s ''ATPS4rpp'' (Builtin 0))
      then py_round2 (fluxes_get s ''ATPS4rpp'' (Builtin 0)) else Builtin 0)"
  "Glucose_Uptake (record_result g s) = py_round2 (fluxes_get s ''EX_glc__D_e'' (Builtin 0))"
  "Lactate_Production (record_result g s) = py_round2 (fluxes_get s ''EX_lac__D_e'' (Builtin 0))"
  "Ethanol_Production (record_result g s) = py_round2 (fluxes_get s ''EX_etoh_e'' (Builtin 0))"
  by (simp_all add: record_result_def Let_def split: option.split)

lemma record_result_absent:
  "fluxes s ''ATPS4rpp'' = None \<Longrightarrow> ATP_Production (record_result g s) = Builtin 0"
  "fluxes s ''EX_glc__D_e'' = None \<Longrightarrow> Glucose_Uptake (record_result g s) = Builtin 0"
  "fluxes s ''EX_lac__D_e'' = None \<Longrightarrow> Lactate_Production (record_result g s) = Builtin 0"
  "fluxes s ''EX_etoh_e'' = None \<Longrightarrow> Ethanol_Production (record_result g s) = Builtin 0"
  by (simp_all add: record_result_def Let_def fluxes_get_def round2_0)

lemma val_Growth_Rate:
  "objective_value s = Some v \<Longrightarrow> val (Growth_Rate (record_result g s)) = round2 (val v)"
  by (simp add: record_result_fields truthy_def val_py_round2 round2_0)

lemma val_ATP_Production:
  "val (ATP_Production (record_result g s)) = round2 (val (fluxes_get s ''ATPS4rpp'' (Builtin 0)))"
  by (simp add: record_result_fields truthy_def val_py_round2 round2_0)

lemma record_baseline:
  "record_result g baseline_solution =
     \<lparr>Gear = name g, Growth_Rate = Builtin 0.62, ATP_Production = Numpy 50,
      Glucose_Uptake = Numpy (- 10), Lactate_Production = Builtin 0,
      Ethanol_Production = Builtin 0\<rparr>"
  by (simp add: record_result_def Let_def baseline_solution_def fluxes_get_def truthy_def
      round2_def round_half_even_def)

lemma record_shifted:
  "record_result g shifted_solution =
     \<lparr>Gear = name g, Growth_Rate = Builtin 1.24, ATP_Production = Numpy 75,
      Glucose_Uptake = Numpy (- 30.01), Lactate_Production = Builtin 0,
      Ethanol_Production = Builtin 0\<rparr>"
  by (simp add: record_result_def Let_def shifted_solution_def fluxes_get_def truthy_def
      round2_def round_half_even_def)

lemma record_fasting:
  "record_result g fasting_solution =
     \<lparr>Gear = name g, Growth_Rate = Builtin 0.62, ATP_Production = Numpy 50,
      Glucose_Uptake = Numpy 0, Lactate_Production = Builtin 0,
      Ethanol_Production = Builtin 0\<rparr>"
  by (simp add: record_result_def Let_def fasting_solution_def fluxes_get_def truthy_def
      round2_def round_half_even_def)

lemma record_no_solution:
  "record_result g no_solution =
     \<lparr>Gear = name g, Growth_Rate = Builtin 0, ATP_Production = Builtin 0,
      Glucose_Uptake = Builtin 0, Lactate_Production = Builtin 0,
      Ethanol_Production = Builtin 0\<rparr>"
  by (simp add: record_result_def Let_def no_solution_def fluxes_get_def truthy_def
      round2_def round_half_even_def)

lemma fold_of_Inr:
  assumes "fold_of gear1 r = Inr f"
  shows "true_div (py_abs (Glucose_Uptake r)) (py_abs (Glucose_Uptake gear1)) = Inr (glucose_fold f)"
    and "true_div (ATP_Production r) (ATP_Production gear1) = Inr (atp_fold f)"
    and "true_div (Growth_Rate r) (Growth_Rate gear1) = Inr (growth_fold f)"
  using assms by (auto simp: fold_of_def split: sum.splits)

lemma record_stalled:
  "record_result g (stalled_solver x) =
     \<lparr>Gear = name g, Growth_Rate = Builtin 0, ATP_Production = Builtin 0,
      Glucose_Uptake = Numpy (- 10), Lactate_Production = Builtin 0,
      Ethanol_Production = Builtin 0\<rparr>"
  by (simp add: record_result_def Let_def stalled_solver_def fluxes_get_def truthy_def
      round2_def round_half_even_def)

lemma record_result_Gear: "Gear (record_result g s) = name g"
  by (simp add: record_result_def Let_def)

lemma apply_gear_biomass:
  "apply_gear g m = Inr m' \<Longrightarrow>
   upper_bound m' BIOMASS = upper_bound m BIOMASS * capacity_factor g"
  unfolding apply_gear_Inr by simp

lemma biomass_at_first_solve:
  "apply_gear g m = Inr m' \<Longrightarrow>
   upper_bound m' BIOMASS
     = upper_bound m BIOMASS
         * max 0.001 (1 - burden g - calculate_stress_penalty \<bar>glucose g\<bar>)"
  by (simp add: apply_gear_biomass capacity_factor_def calculate_stress_penalty_abs)

section \<open>The sweep as a whole\<close>

lemma accepts_tail: "accepts m (g # gs) \<Longrightarrow> accepts m gs"
  by (simp add: accepts_def)

lemma accepts_apply_gear:
  assumes "accepts m (g # gs)"
  shows "\<exists>m'. apply_gear g m = Inr m'"
proof -
  have "0 \<le> upper_bound m BIOMASS * capacity_factor g"
    using assms capacity_factor_pos [of g] by (simp add: accepts_def)
  moreover have "35 + min ((\<bar>glucose g\<bar> * 0.02) powr 1.8) 200 \<le> (235::real)"
    by simp
  ultimately show ?thesis
    using assms unfolding apply_gear_Inr accepts_def by force
qed

lemma accepts_step:
  assumes "accepts m gs" and "apply_gear g m = Inr m'"
  shows "accepts m' gs"
proof -
  have "0 \<le> upper_bound m BIOMASS * capacity_factor g"
    using assms(1) capacity_factor_pos [of g] by (simp add: accepts_def)
  then show ?thesis
    using assms unfolding apply_gear_Inr accepts_def by simp
qed

lemma solve_models_accepts: "accepts m gs \<Longrightarrow> \<exists>ms. solve_models gs m = Inr ms"
proof (induction gs arbitrary: m)
  case Nil
  show ?case by simp
next
  case (Cons g gs)
  from accepts_apply_gear [OF Cons.prems] obtain m' where m': "apply_gear g m = Inr m'"
    by blast
  have "accepts m' gs"
    using accepts_tail [OF Cons.prems] m' by (rule accepts_step)
  from Cons.IH [OF this] obtain ms where "solve_models gs m' = Inr ms"
    by blast
  with m' show ?case by simp
qed

lemma solve_models_length: "solve_models gs m = Inr ms \<Longrightarrow> length ms = length gs"
proof (induction gs arbitrary: m ms)
  case Nil
  then show ?case by simp
next
  case (Cons g gs)
  then show ?case by (auto simp: and_then_Inr)
qed

lemma sweep_solve_models:
  "solve_models gs m = Inr ms \<Longrightarrow>
   \<exists>m'. sweep optimize gs m rs =
     Inr (rs @ map (\<lambda>(g, x). record_result g (optimize x)) (zip gs ms), m')"
proof (induction gs arbitrary: m ms rs)
  case Nil
  then show ?case by simp
next
  case (Cons g gs)
  from Cons.prems obtain m1 ms1 where
    m1: "apply_gear g m = Inr m1" and ms1: "solve_models gs m1 = Inr ms1"
    and ms: "ms = m1 # ms1"
    by (auto simp: and_then_Inr)
  from Cons.IH [OF ms1, of "rs @ [record_result g (optimize m1)]"] m1 ms
  show ?case by (simp add: Let_def)
qed

lemma sweep_error:
  "solve_models gs m = Inl e \<Longrightarrow> sweep optimize gs m rs = Inl e"
proof (induction gs arbitrary: m rs)
  case Nil
  then show ?case by simp
next
  case (Cons g gs)
  show ?case
  proof (cases "apply_gear g m")
    case (Inl e')
    with Cons.prems show ?thesis by simp
  next
    case (Inr m1)
    with Cons.prems have "solve_models gs m1 = Inl e"
      by (cases "solve_models gs m1") simp_all
    from Cons.IH [OF this] Inr show ?thesis by (simp add: Let_def)
  qed
qed

lemma run_sweep_solve_models:
  "solve_models gs m = Inr ms \<Longrightarrow>
   run_sweep optimize gs m = Inr (map (\<lambda>(g, x). record_result g (optimize x)) (zip gs ms))"
  using sweep_solve_models [of gs m ms optimize "[]"] by (auto simp: run_sweep_def)

lemma run_sweep_error: "solve_models gs m = Inl e \<Longrightarrow> run_sweep optimize gs m = Inl e"
  by (simp add: run_sweep_def sweep_error)

lemma biomass_at_solve:
  "solve_models gs m = Inr ms \<Longrightarrow> k < length gs \<Longrightarrow>
   upper_bound (ms ! k) BIOMASS =
     upper_bound m BIOMASS * prod_list (map capacity_factor (take (Suc k) gs))"
proof (induction gs arbitrary: m ms k)
  case Nil
  then show ?case by simp
next
  case (Cons g gs)
  from Cons.prems(1) obtain m1 ms1 where
    m1: "apply_gear g m = Inr m1" and ms1: "solve_models gs m1 = Inr ms1"
    and ms: "ms = m1 # ms1"
    by (auto simp: and_then_Inr)
  show ?case
  proof (cases k)
    case 0
    with ms apply_gear_biomass [OF m1] show ?thesis by simp
  next
    case (Suc j)
    with Cons.prems(2) have "j < length gs" by simp
    from Cons.IH [OF ms1 this] Suc ms apply_gear_biomass [OF m1] show ?thesis
      by (simp add: mult.assoc)
  qed
qed

lemma accepts_nominal_gears: "accepts nominal_model gears"
  unfolding accepts_def
  by (simp add: nominal_model_def gears_def pow_in_range)

lemma run_sweep_accepts:
  assumes "accepts m gs"
  obtains rs ms where "run_sweep optimize gs m = Inr rs" and "solve_models gs m = Inr ms"
    and "length rs = length gs" and "length ms = length gs"
    and "\<And>i. i < length gs \<Longrightarrow> rs ! i = record_result (gs ! i) (optimize (ms ! i))"
proof -
  from solve_models_accepts [OF assms] obtain ms where ms: "solve_models gs m = Inr ms"
    by blast
  have len: "length ms = length gs"
    using ms by (rule solve_models_length)
  let ?rs = "map (\<lambda>(g, x). record_result g (optimize x)) (zip gs ms)"
  have "run_sweep optimize gs m = Inr ?rs"
    using ms by (rule run_sweep_solve_models)
  moreover have "length ?rs = length gs"
    using len by simp
  moreover have "?rs ! i = record_result (gs ! i) (optimize (ms ! i))" if "i < length gs" for i
    using that len by simp
  ultimately show ?thesis
    using ms len that by blast
qed

lemma run_sweep_names:
  assumes "run_sweep optimize gs m = Inr rs"
  shows "map Gear rs = map name gs"
proof (cases "solve_models gs m")
  case (Inl e)
  with assms show ?thesis by (simp add: run_sweep_error)
next
  case (Inr ms)
  have len: "length ms = length gs"
    using Inr by (rule solve_models_length)
  have "rs = map (\<lambda>(g, x). record_result g (optimize x)) (zip gs ms)"
    using run_sweep_solve_models [OF Inr, of optimize] assms by simp
  then have "map Gear rs = map (\<lambda>(g, x). name g) (zip gs ms)"
    by (simp add: record_result_Gear case_prod_unfold)
  also have "\<dots> = map name (map fst (zip gs ms))"
    by (simp add: case_prod_unfold)
  also have "\<dots> = map name gs"
    using len by simp
  finally show ?thesis .
qed

lemma run_sweep_constant:
  assumes "accepts m gs"
  shows "run_sweep (\<lambda>x. s) gs m = Inr (map (\<lambda>g. record_result g s) gs)"
proof -
  from run_sweep_accepts [OF assms, of "\<lambda>x. s"] obtain rs ms where
    rs: "run_sweep (\<lambda>x. s) gs m = Inr rs" and len: "length rs = length gs"
    and nth: "\<And>i. i < length gs \<Longrightarrow> rs ! i = record_result (gs ! i) s"
    by blast
  have "rs = map (\<lambda>g. record_result g s) gs"
    using len nth by (intro nth_equalityI) simp_all
  with rs show ?thesis by simp
qed

lemma accepts_gears_iff:
  "accepts m gears \<longleftrightarrow>
     - 10 \<le> upper_bound m ''EX_glc__D_e'' \<and> - 18 \<le> upper_bound m ''EX_o2_e''
     \<and> lower_bound m BIOMASS \<le> 0 \<and> 0 \<le> upper_bound m BIOMASS
     \<and> 235 \<le> upper_bound m ''ATPM''
     \<and> 0 \<le> upper_bound m ''EX_lac__D_e'' \<and> 0 \<le> upper_bound m ''EX_etoh_e''"
  unfolding accepts_def by (auto simp: gears_def pow_in_range)



section \<open>The biomass bound across a sweep\<close>

text \<open>
  A non-negative nominal bound stays non-negative at every solve.
\<close>

lemma biomass_at_solve_nonneg:
  assumes "solve_models gs m = Inr ms" and "k < length gs" and "0 \<le> upper_bound m BIOMASS"
  shows "0 \<le> upper_bound (ms ! k) BIOMASS"
proof -
  have "0 \<le> prod_list (map capacity_factor xs)" for xs
  proof (induction xs)
    case Nil
    show ?case by simp
  next
    case (Cons x xs)
    have "0 \<le> capacity_factor x"
      using capacity_factor_pos [of x] by simp
    with Cons show ?case by simp
  qed
  with assms show ?thesis by (simp add: biomass_at_solve)
qed

text \<open>
  Claim C1. Within one sweep the biomass upper bound in force at a gear's solve should be
  the nominal bound (read once, before any mutation) times
  \<open>max 0.001 (1 - burden - capacityPenalty \<bar>glucose\<bar>)\<close>, so that the gears' adjustments
  do not compound. The loop reads \<open>base_biomass\<close> from the model it has already
  overwritten: on the five gears and a nominal bound of 1000 the sweep runs without an
  error, and the bound at the solve of Gear 2 is strictly below 1000 times the factor of
  Gear 2.
\<close>

theorem biomass_bound_compounds:
  "\<exists>ms. solve_models gears nominal_model = Inr ms
     \<and> upper_bound (ms ! 1) BIOMASS
         < upper_bound nominal_model BIOMASS
             * max 0.001 (1 - burden (gears ! 1)
                 - calculate_stress_penalty \<bar>glucose (gears ! 1)\<bar>)"
proof -
  from solve_models_accepts [OF accepts_nominal_gears] obtain ms
    where ms: "solve_models gears nominal_model = Inr ms" by blast
  have k: "1 < length gears" by (simp add: gears_def)
  have "take (Suc 1) gears = [gears ! 0, gears ! 1]" by (simp add: gears_def)
  then have eq: "upper_bound (ms ! 1) BIOMASS
      = 1000 * (capacity_factor (gears ! 0) * capacity_factor (gears ! 1))"
    using biomass_at_solve [OF ms k] by (simp add: nominal_model_def)
  have f1: "capacity_factor (gears ! 0) < 1"
    by (rule capacity_factor_less_1) (simp add: gears_def)
  have f2: "0 < capacity_factor (gears ! 1)"
    using capacity_factor_pos [of "gears ! 1"] by simp
  from f1 f2 have "capacity_factor (gears ! 0) * capacity_factor (gears ! 1)
      < capacity_factor (gears ! 1)" by simp
  then have "upper_bound (ms ! 1) BIOMASS
         < upper_bound nominal_model BIOMASS
             * max 0.001 (1 - burden (gears ! 1)
                 - calculate_stress_penalty \<bar>glucose (gears ! 1)\<bar>)"
    unfolding eq by (simp add: nominal_model_def capacity_factor_def calculate_stress_penalty_abs)
  with ms show ?thesis by blast
qed

text \<open>
  Claim C3. The biomass upper bound at a gear's solve should never be negative and never
  below 0.001 times the nominal bound. On the five gears and a nominal bound of 1000 the
  sweep runs without an error, and the bound at the solve of Gear 3 (whose burden plus
  penalty exceeds 1) is strictly below \<open>0.001 * 1000\<close>: the floor applies to the bound
  left by Gear 2, not to the nominal one.
\<close>

theorem biomass_bound_below_floor:
  "\<exists>ms. solve_models gears nominal_model = Inr ms
     \<and> upper_bound (ms ! 2) BIOMASS < 0.001 * upper_bound nominal_model BIOMASS"
proof -
  from solve_models_accepts [OF accepts_nominal_gears] obtain ms
    where ms: "solve_models gears nominal_model = Inr ms" by blast
  have k: "2 < length gears" by (simp add: gears_def)
  have "take (Suc 2) gears = [gears ! 0, gears ! 1, gears ! 2]"
    by (simp add: gears_def)
  then have eq: "upper_bound (ms ! 2) BIOMASS
      = 1000 * (capacity_factor (gears ! 0) * (capacity_factor (gears ! 1) * 0.001))"
    using biomass_at_solve [OF ms k]
    by (simp add: nominal_model_def factor_gear3)
  have f1: "capacity_factor (gears ! 0) < 1" "0 < capacity_factor (gears ! 0)"
    using capacity_factor_less_1 [of "gears ! 0"] capacity_factor_pos [of "gears ! 0"]
    by (simp_all add: gears_def)
  have f2: "capacity_factor (gears ! 1) < 1" "0 < capacity_factor (gears ! 1)"
    using capacity_factor_less_1 [of "gears ! 1"] capacity_factor_pos [of "gears ! 1"]
    by (simp_all add: gears_def)
  have "capacity_factor (gears ! 0) * capacity_factor (gears ! 1) < 1 * 1"
    using f1 f2 by (intro mult_strict_mono) auto
  then have "upper_bound (ms ! 2) BIOMASS < 0.001 * upper_bound nominal_model BIOMASS"
    unfolding eq by (simp add: nominal_model_def)
  with ms show ?thesis by blast
qed

section \<open>Results of the sweep\<close>

text \<open>
  Claim C4, as the code has it. Let the model's bounds accept the assignments of the
  gears. The sweep then returns one result per gear, in order, each the record of that
  gear's solution. When the solver returns no objective value for a gear (\<open>None\<close> or
  zero), the result recorded for that gear has growth rate 0.0, and its four flux fields
  are still read from the solver's flux mapping: the mapped value rounded to two
  decimals, 0.0 for a reaction that is absent, and 0.0 for a zero ATP flux.
\<close>

theorem infeasible_solve_recorded:
  assumes "accepts m gs"
  shows "\<exists>rs ms. run_sweep optimize gs m = Inr rs \<and> solve_models gs m = Inr ms
     \<and> length rs = length gs
     \<and> (\<forall>i<length gs. rs ! i = record_result (gs ! i) (optimize (ms ! i))
          \<and> (objective_value (optimize (ms ! i)) = None
               \<or> (\<exists>v. objective_value (optimize (ms ! i)) = Some v \<and> val v = 0)
             \<longrightarrow> Growth_Rate (rs ! i) = Builtin 0
               \<and> ATP_Production (rs ! i)
                   = (case fluxes (optimize (ms ! i)) ''ATPS4rpp'' of
                        None \<Rightarrow> Builtin 0
                      | Some a \<Rightarrow> if val a = 0 then Builtin 0 else py_round2 a)
               \<and> Glucose_Uptake (rs ! i)
                   = (case fluxes (optimize (ms ! i)) ''EX_glc__D_e'' of
                        None \<Rightarrow> Builtin 0 | Some x \<Rightarrow> py_round2 x)
               \<and> Lactate_Production (rs ! i)
                   = (case fluxes (optimize (ms ! i)) ''EX_lac__D_e'' of
                        None \<Rightarrow> Builtin 0 | Some x \<Rightarrow> py_round2 x)
               \<and> Ethanol_Production (rs ! i)
                   = (case fluxes (optimize (ms ! i)) ''EX_etoh_e'' of
                        None \<Rightarrow> Builtin 0 | Some x \<Rightarrow> py_round2 x)))"
proof -
  from run_sweep_accepts [OF assms, of optimize] obtain rs ms where
    rs: "run_sweep optimize gs m = Inr rs" and ms: "solve_models gs m = Inr ms"
    and n: "length rs = length gs"
    and nth: "\<And>i. i < length gs \<Longrightarrow> rs ! i = record_result (gs ! i) (optimize (ms ! i))"
    by blast
  have fields: "Growth_Rate (record_result g s) = Builtin 0
               \<and> ATP_Production (record_result g s)
                   = (case fluxes s ''ATPS4rpp'' of
                        None \<Rightarrow> Builtin 0
                      | Some a \<Rightarrow> if val a = 0 then Builtin 0 else py_round2 a)
               \<and> Glucose_Uptake (record_result g s)
                   = (case fluxes s ''EX_glc__D_e'' of
                        None \<Rightarrow> Builtin 0 | Some x \<Rightarrow> py_round2 x)
               \<and> Lactate_Production (record_result g s)
                   = (case fluxes s ''EX_lac__D_e'' of
                        None \<Rightarrow> Builtin 0 | Some x \<Rightarrow> py_round2 x)
               \<and> Ethanol_Production (record_result g s)
                   = (case fluxes s ''EX_etoh_e'' of
                        None \<Rightarrow> Builtin 0 | Some x \<Rightarrow> py_round2 x)"
    if "objective_value s = None \<or> (\<exists>v. objective_value s = Some v \<and> val v = 0)" for g s
    using that
    by (auto simp: record_result_fields fluxes_get_def truthy_def round2_0
        split: option.split)
  from rs ms n nth fields show ?thesis
    by (intro exI [of _ rs] exI [of _ ms]) simp
qed

theorem infeasible_solve_recorded_witness:
  "accepts nominal_model gears
   \<and> (\<exists>rs. run_sweep stalled_solver gears nominal_model = Inr rs
         \<and> length rs = 5
         \<and> Growth_Rate (rs ! 1) = Builtin 0
         \<and> ATP_Production (rs ! 1) = Builtin 0
         \<and> Glucose_Uptake (rs ! 1) = Numpy (- 10)
         \<and> Gear (rs ! 2) = ''Gear 3'')"
proof -
  have len: "length gears = 5" by (simp add: gears_def)
  from infeasible_solve_recorded [OF accepts_nominal_gears, of stalled_solver]
  obtain rs ms where rs: "run_sweep stalled_solver gears nominal_model = Inr rs"
    and n: "length rs = length gears"
    and all: "\<forall>i<length gears. rs ! i = record_result (gears ! i) (stalled_solver (ms ! i))
          \<and> (objective_value (stalled_solver (ms ! i)) = None
               \<or> (\<exists>v. objective_value (stalled_solver (ms ! i)) = Some v \<and> val v = 0)
             \<longrightarrow> Growth_Rate (rs ! i) = Builtin 0
               \<and> ATP_Production (rs ! i)
                   = (case fluxes (stalled_solver (ms ! i)) ''ATPS4rpp'' of
                        None \<Rightarrow> Builtin 0
                      | Some a \<Rightarrow> if val a = 0 then Builtin 0 else py_round2 a)
               \<and> Glucose_Uptake (rs ! i)
                   = (case fluxes (stalled_solver (ms ! i)) ''EX_glc__D_e'' of
                        None \<Rightarrow> Builtin 0 | Some x \<Rightarrow> py_round2 x)
               \<and> Lactate_Production (rs ! i)
                   = (case fluxes (stalled_solver (ms ! i)) ''EX_lac__D_e'' of
                        None \<Rightarrow> Builtin 0 | Some x \<Rightarrow> py_round2 x)
               \<and> Ethanol_Production (rs ! i)
                   = (case fluxes (stalled_solver (ms ! i)) ''EX_etoh_e'' of
                        None \<Rightarrow> Builtin 0 | Some x \<Rightarrow> py_round2 x))"
    by blast
  have none: "objective_value (stalled_solver x) = None" for x
    by (simp add: stalled_solver_def)
  have fl: "fluxes (stalled_solver x) ''ATPS4rpp'' = None"
    "fluxes (stalled_solver x) ''EX_glc__D_e'' = Some (Numpy (- 10))" for x
    by (simp_all add: stalled_solver_def)
  have r: "round2 (- 10) = - 10"
    by (simp add: round2_def round_half_even_def)
  have one: "(1::nat) < length gears" and two: "(2::nat) < length gears"
    using len by simp_all
  from all [rule_format, OF one] none
  have h: "Growth_Rate (rs ! 1) = Builtin 0
      \<and> ATP_Production (rs ! 1)
          = (case fluxes (stalled_solver (ms ! 1)) ''ATPS4rpp'' of
               None \<Rightarrow> Builtin 0
             | Some a \<Rightarrow> if val a = 0 then Builtin 0 else py_round2 a)
      \<and> Glucose_Uptake (rs ! 1)
          = (case fluxes (stalled_solver (ms ! 1)) ''EX_glc__D_e'' of
               None \<Rightarrow> Builtin 0 | Some x \<Rightarrow> py_round2 x)"
    by blast
  then have a: "Growth_Rate (rs ! 1) = Builtin 0"
    and b: "ATP_Production (rs ! 1) = Builtin 0"
    and c: "Glucose_Uptake (rs ! 1) = Numpy (- 10)"
    by (simp_all add: fl r)
  from all [rule_format, OF two]
  have "rs ! 2 = record_result (gears ! 2) (stalled_solver (ms ! 2))" by blast
  then have e: "Gear (rs ! 2) = ''Gear 3''"
    by (simp add: record_result_Gear gears_def)
  from rs n len a b c e accepts_nominal_gears show ?thesis by auto
qed

text \<open>
  Claim C4 as stated fails: with no objective value but a glucose flux of \<open>-10\<close> in the
  mapping, the growth rate is recorded as 0.0 and the glucose flux as \<open>-10\<close>, not 0.0.
\<close>

theorem infeasible_fluxes_not_zeroed:
  "run_sweep stalled_solver [gears ! 0] nominal_model =
     Inr [\<lparr>Gear = ''Gear 1'', Growth_Rate = Builtin 0, ATP_Production = Builtin 0,
           Glucose_Uptake = Numpy (- 10), Lactate_Production = Builtin 0,
           Ethanol_Production = Builtin 0\<rparr>]"
proof -
  have "accepts nominal_model [gears ! 0]"
    unfolding accepts_def
    by (simp add: nominal_model_def gears_def pow_in_range)
  from run_sweep_accepts [OF this, of stalled_solver]
  obtain rs ms where rs: "run_sweep stalled_solver [gears ! 0] nominal_model = Inr rs"
    and n: "length rs = length [gears ! 0]"
    and nth: "\<And>i. i < length [gears ! 0]
        \<Longrightarrow> rs ! i = record_result ([gears ! 0] ! i) (stalled_solver (ms ! i))"
    by blast
  from nth [of 0] have "rs ! 0 = record_result (gears ! 0) (stalled_solver (ms ! 0))"
    by simp
  then have "rs ! 0 = \<lparr>Gear = ''Gear 1'', Growth_Rate = Builtin 0, ATP_Production = Builtin 0,
           Glucose_Uptake = Numpy (- 10), Lactate_Production = Builtin 0,
           Ethanol_Production = Builtin 0\<rparr>"
    by (simp add: record_stalled gears_def)
  moreover from n have "rs = [rs ! 0]"
    by (cases rs) simp_all
  ultimately show ?thesis using rs by simp
qed

text \<open>
  Claim C8. Whatever the solver, from starting bounds that accept the assignments of the
  five literal gears (see \<open>accepts_gears_iff\<close>), the sweep returns exactly five results,
  named Gear 1 to Gear 5 in that order; the result at each position is the record of all
  five metrics read from that gear's solution, and a reaction absent from the flux
  mapping contributes 0.0.
\<close>

theorem sweep_gears_five_results:
  assumes "accepts m gears"
  shows "\<exists>rs ms. run_sweep optimize gears m = Inr rs \<and> solve_models gears m = Inr ms
   \<and> length rs = 5
   \<and> map Gear rs = [''Gear 1'', ''Gear 2'', ''Gear 3'', ''Gear 4'', ''Gear 5'']
   \<and> (\<forall>i<5. rs ! i = record_result (gears ! i) (optimize (ms ! i))
        \<and> (fluxes (optimize (ms ! i)) ''ATPS4rpp'' = None
             \<longrightarrow> ATP_Production (rs ! i) = Builtin 0.0)
        \<and> (fluxes (optimize (ms ! i)) ''EX_glc__D_e'' = None
             \<longrightarrow> Glucose_Uptake (rs ! i) = Builtin 0.0)
        \<and> (fluxes (optimize (ms ! i)) ''EX_lac__D_e'' = None
             \<longrightarrow> Lactate_Production (rs ! i) = Builtin 0.0)
        \<and> (fluxes (optimize (ms ! i)) ''EX_etoh_e'' = None
             \<longrightarrow> Ethanol_Production (rs ! i) = Builtin 0.0))"
proof -
  have len: "length gears = 5" by (simp add: gears_def)
  from run_sweep_accepts [OF assms, of optimize] obtain rs ms where
    rs: "run_sweep optimize gears m = Inr rs" and ms: "solve_models gears m = Inr ms"
    and n: "length rs = length gears"
    and nth: "\<And>i. i < length gears \<Longrightarrow> rs ! i = record_result (gears ! i) (optimize (ms ! i))"
    by blast
  have names: "map Gear rs = [''Gear 1'', ''Gear 2'', ''Gear 3'', ''Gear 4'', ''Gear 5'']"
    unfolding run_sweep_names [OF rs] by (simp add: gears_def)
  have "\<forall>i<5. rs ! i = record_result (gears ! i) (optimize (ms ! i))
        \<and> (fluxes (optimize (ms ! i)) ''ATPS4rpp'' = None
             \<longrightarrow> ATP_Production (rs ! i) = Builtin 0.0)
        \<and> (fluxes (optimize (ms ! i)) ''EX_glc__D_e'' = None
             \<longrightarrow> Glucose_Uptake (rs ! i) = Builtin 0.0)
        \<and> (fluxes (optimize (ms ! i)) ''EX_lac__D_e'' = None
             \<longrightarrow> Lactate_Production (rs ! i) = Builtin 0.0)
        \<and> (fluxes (optimize (ms ! i)) ''EX_etoh_e'' = None
             \<longrightarrow> Ethanol_Production (rs ! i) = Builtin 0.0)"
    using nth len by (simp add: record_result_absent)
  with rs ms n len names show ?thesis by auto
qed

theorem sweep_gears_five_results_witness:
  "accepts nominal_model gears
   \<and> run_sweep (\<lambda>m. no_solution) gears nominal_model =
       Inr (map (\<lambda>n. \<lparr>Gear = n, Growth_Rate = Builtin 0, ATP_Production = Builtin 0,
                      Glucose_Uptake = Builtin 0, Lactate_Production = Builtin 0,
                      Ethanol_Production = Builtin 0\<rparr>)
              [''Gear 1'', ''Gear 2'', ''Gear 3'', ''Gear 4'', ''Gear 5''])"
proof -
  from sweep_gears_five_results [OF accepts_nominal_gears, of "\<lambda>m. no_solution"]
  obtain rs ms where rs: "run_sweep (\<lambda>m. no_solution) gears nominal_model = Inr rs"
    and n: "length rs = 5"
    and nth: "\<forall>i<5. rs ! i = record_result (gears ! i) no_solution"
    by blast
  have "rs = map (\<lambda>n. \<lparr>Gear = n, Growth_Rate = Builtin 0, ATP_Production = Builtin 0,
                      Glucose_Uptake = Builtin 0, Lactate_Production = Builtin 0,
                      Ethanol_Production = Builtin 0\<rparr>)
              [''Gear 1'', ''Gear 2'', ''Gear 3'', ''Gear 4'', ''Gear 5'']"
  proof (rule nth_equalityI)
    show "length rs = length (map (\<lambda>n. \<lparr>Gear = n, Growth_Rate = Builtin 0,
        ATP_Production = Builtin 0, Glucose_Uptake = Builtin 0,
        Lactate_Production = Builtin 0, Ethanol_Production = Builtin 0\<rparr>)
              [''Gear 1'', ''Gear 2'', ''Gear 3'', ''Gear 4'', ''Gear 5''])"
      using n by simp
  next
    fix i assume "i < length rs"
    then have "i < 5" using n by simp
    then consider "i = 0" | "i = 1" | "i = 2" | "i = 3" | "i = 4" by linarith
    then show "rs ! i = map (\<lambda>n. \<lparr>Gear = n, Growth_Rate = Builtin 0,
        ATP_Production = Builtin 0, Glucose_Uptake = Builtin 0,
        Lactate_Production = Builtin 0, Ethanol_Production = Builtin 0\<rparr>)
              [''Gear 1'', ''Gear 2'', ''Gear 3'', ''Gear 4'', ''Gear 5''] ! i"
      using nth by cases (simp_all add: record_no_solution gears_def)
  qed
  with rs accepts_nominal_gears show ?thesis by simp
qed




text \<open>
  Claim C10. Every metric stored in a result is the solver's raw value rounded to two
  decimal places (a multiple of 0.01 at most 0.005 away from the raw value; the growth
  rate when the solver returned one), and every finite fold-change ratio is the quotient
  of the rounded values of the two results, not of the raw ones.
\<close>

theorem metrics_rounded_to_2_places:
  "(\<forall>v. objective_value s = Some v
        \<longrightarrow> val (Growth_Rate (record_result g s)) = round2 (val v))
   \<and> val (ATP_Production (record_result g s))
       = round2 (val (fluxes_get s ''ATPS4rpp'' (Builtin 0)))
   \<and> val (Glucose_Uptake (record_result g s))
       = round2 (val (fluxes_get s ''EX_glc__D_e'' (Builtin 0)))
   \<and> val (Lactate_Production (record_result g s))
       = round2 (val (fluxes_get s ''EX_lac__D_e'' (Builtin 0)))
   \<and> val (Ethanol_Production (record_result g s))
       = round2 (val (fluxes_get s ''EX_etoh_e'' (Builtin 0)))
   \<and> (\<forall>x. \<bar>round2 x - x\<bar> \<le> 1 / 200 \<and> (\<exists>k::int. round2 x = of_int k / 100))
   \<and> (\<forall>f. fold_of (record_result g1 s1) (record_result g s) = Inr f \<longrightarrow>
         (\<forall>q. glucose_fold f = Finite q \<longrightarrow>
            q = \<bar>round2 (val (fluxes_get s ''EX_glc__D_e'' (Builtin 0)))\<bar>
                / \<bar>round2 (val (fluxes_get s1 ''EX_glc__D_e'' (Builtin 0)))\<bar>)
       \<and> (\<forall>q. atp_fold f = Finite q \<longrightarrow>
            q = round2 (val (fluxes_get s ''ATPS4rpp'' (Builtin 0)))
                / round2 (val (fluxes_get s1 ''ATPS4rpp'' (Builtin 0))))
       \<and> (\<forall>q v v1. growth_fold f = Finite q \<and> objective_value s = Some v
              \<and> objective_value s1 = Some v1 \<longrightarrow>
            q = round2 (val v) / round2 (val v1)))"
proof -
  have fields: "val (Glucose_Uptake (record_result g' s'))
       = round2 (val (fluxes_get s' ''EX_glc__D_e'' (Builtin 0)))"
    "val (Lactate_Production (record_result g' s'))
       = round2 (val (fluxes_get s' ''EX_lac__D_e'' (Builtin 0)))"
    "val (Ethanol_Production (record_result g' s'))
       = round2 (val (fluxes_get s' ''EX_etoh_e'' (Builtin 0)))" for g' s'
    by (simp_all add: record_result_fields val_py_round2)
  have grid: "\<forall>x. \<bar>round2 x - x\<bar> \<le> 1 / 200 \<and> (\<exists>k::int. round2 x = of_int k / 100)"
    using round2_close round2_grid by blast
  have folds: "(\<forall>q. glucose_fold f = Finite q \<longrightarrow>
            q = \<bar>round2 (val (fluxes_get s ''EX_glc__D_e'' (Builtin 0)))\<bar>
                / \<bar>round2 (val (fluxes_get s1 ''EX_glc__D_e'' (Builtin 0)))\<bar>)
       \<and> (\<forall>q. atp_fold f = Finite q \<longrightarrow>
            q = round2 (val (fluxes_get s ''ATPS4rpp'' (Builtin 0)))
                / round2 (val (fluxes_get s1 ''ATPS4rpp'' (Builtin 0))))
       \<and> (\<forall>q v v1. growth_fold f = Finite q \<and> objective_value s = Some v
              \<and> objective_value s1 = Some v1 \<longrightarrow>
            q = round2 (val v) / round2 (val v1))"
    if f: "fold_of (record_result g1 s1) (record_result g s) = Inr f" for f
  proof (intro conjI allI impI)
    fix q assume "glucose_fold f = Finite q"
    with fold_of_Inr(1) [OF f] true_div_Finite
    have "q = val (py_abs (Glucose_Uptake (record_result g s)))
            / val (py_abs (Glucose_Uptake (record_result g1 s1)))"
      by metis
    then show "q = \<bar>round2 (val (fluxes_get s ''EX_glc__D_e'' (Builtin 0)))\<bar>
                / \<bar>round2 (val (fluxes_get s1 ''EX_glc__D_e'' (Builtin 0)))\<bar>"
      by (simp add: val_py_abs fields)
  next
    fix q assume "atp_fold f = Finite q"
    with fold_of_Inr(2) [OF f] true_div_Finite
    have "q = val (ATP_Production (record_result g s))
            / val (ATP_Production (record_result g1 s1))"
      by metis
    then show "q = round2 (val (fluxes_get s ''ATPS4rpp'' (Builtin 0)))
                / round2 (val (fluxes_get s1 ''ATPS4rpp'' (Builtin 0)))"
      by (simp add: val_ATP_Production)
  next
    fix q v v1
    assume a: "growth_fold f = Finite q \<and> objective_value s = Some v
              \<and> objective_value s1 = Some v1"
    with fold_of_Inr(3) [OF f] true_div_Finite
    have "q = val (Growth_Rate (record_result g s))
            / val (Growth_Rate (record_result g1 s1))"
      by metis
    with a show "q = round2 (val v) / round2 (val v1)"
      by (simp add: val_Growth_Rate)
  qed
  from val_Growth_Rate [of s _ g] val_ATP_Production [of g s] fields [of g s] grid folds
  show ?thesis by blast
qed

theorem metrics_rounded_to_2_places_witness:
  "val (Growth_Rate (record_result (gears ! 1) shifted_solution)) = 1.24
   \<and> val (Glucose_Uptake (record_result (gears ! 1) shifted_solution)) = - 30.01
   \<and> fold_of (record_result (gears ! 0) baseline_solution)
        (record_result (gears ! 1) shifted_solution)
       = Inr \<lparr>glucose_fold = Finite 3.001, atp_fold = Finite 1.5, growth_fold = Finite 2\<rparr>
   \<and> (3.001 :: real) = \<bar>round2 (- 30.012)\<bar> / \<bar>round2 (- 10.004)\<bar>
   \<and> (1.5 :: real) = round2 75.004 / round2 50.004
   \<and> (2 :: real) = round2 1.236 / round2 0.624"
proof -
  note t = metrics_rounded_to_2_places
    [of shifted_solution "gears ! 1" "gears ! 0" baseline_solution]
  have obj: "objective_value shifted_solution = Some (Builtin 1.236)"
    "objective_value baseline_solution = Some (Builtin 0.624)"
    by (simp_all add: shifted_solution_def baseline_solution_def)
  have glc: "fluxes_get shifted_solution ''EX_glc__D_e'' (Builtin 0) = Numpy (- 30.012)"
    "fluxes_get baseline_solution ''EX_glc__D_e'' (Builtin 0) = Numpy (- 10.004)"
    by (simp_all add: shifted_solution_def baseline_solution_def fluxes_get_def)
  have atp: "fluxes_get shifted_solution ''ATPS4rpp'' (Builtin 0) = Numpy 75.004"
    "fluxes_get baseline_solution ''ATPS4rpp'' (Builtin 0) = Numpy 50.004"
    by (simp_all add: shifted_solution_def baseline_solution_def fluxes_get_def)
  have r: "round2 1.236 = 1.24" "round2 (- 30.012) = - 30.01"
    by (simp_all add: round2_def round_half_even_def)
  have ev: "fold_of (record_result (gears ! 0) baseline_solution)
        (record_result (gears ! 1) shifted_solution)
       = Inr \<lparr>glucose_fold = Finite 3.001, atp_fold = Finite 1.5, growth_fold = Finite 2\<rparr>"
    by (simp add: fold_of_def record_baseline record_shifted)
  have a: "val (Growth_Rate (record_result (gears ! 1) shifted_solution)) = 1.24"
    using t obj r by (elim conjE) simp
  have b: "val (Glucose_Uptake (record_result (gears ! 1) shifted_solution)) = - 30.01"
    using t glc r by (elim conjE) simp
  note fd = t [THEN conjunct2, THEN conjunct2, THEN conjunct2, THEN conjunct2,
      THEN conjunct2, THEN conjunct2, THEN spec, THEN mp, OF ev]
  have "glucose_fold \<lparr>glucose_fold = Finite 3.001, atp_fold = Finite 1.5,
      growth_fold = Finite 2\<rparr> = Finite 3.001"
    by simp
  from fd [THEN conjunct1, THEN spec, THEN mp, OF this]
  have c: "(3.001 :: real) = \<bar>round2 (- 30.012)\<bar> / \<bar>round2 (- 10.004)\<bar>"
    by (simp only: glc val.simps)
  have "atp_fold \<lparr>glucose_fold = Finite 3.001, atp_fold = Finite 1.5,
      growth_fold = Finite 2\<rparr> = Finite 1.5"
    by simp
  from fd [THEN conjunct2, THEN conjunct1, THEN spec, THEN mp, OF this]
  have c': "(1.5 :: real) = round2 75.004 / round2 50.004"
    by (simp only: atp val.simps)
  have "growth_fold \<lparr>glucose_fold = Finite 3.001, atp_fold = Finite 1.5,
      growth_fold = Finite 2\<rparr> = Finite 2
      \<and> objective_value shifted_solution = Some (Builtin 1.236)
      \<and> objective_value baseline_solution = Some (Builtin 0.624)"
    using obj by simp
  from fd [THEN conjunct2, THEN conjunct2, THEN spec, THEN spec, THEN spec, THEN mp, OF this]
  have d: "(2 :: real) = round2 1.236 / round2 0.624"
    by (simp only: val.simps)
  from a b ev c c' d show ?thesis by blast
qed

section \<open>Fold improvements against a zero baseline\<close>

text \<open>
  Claim C2. A baseline value of exactly 0.0 should surface as an explicit error or an
  undefined result. The loop divides unguarded. When the baseline glucose flux is a
  \<open>numpy.float64\<close> zero, no error is raised and the glucose ratio of the next gear is
  an infinity.
\<close>

theorem zero_baseline_not_surfaced:
  "fold_improvements
     [record_result (gears ! 0) fasting_solution, record_result (gears ! 1) shifted_solution]
   = Inr [\<lparr>glucose_fold = Infinite, atp_fold = Finite 1.5, growth_fold = Finite 2\<rparr>]"
  by (simp add: fold_improvements_def fold_of_def record_fasting record_shifted)

text \<open>
  With a zero numerator as well the ratio is NaN, again without an error; only two
  builtin floats raise \<open>ZeroDivisionError\<close>, which nothing catches.
\<close>

lemma zero_baseline_nan:
  "fold_improvements
     [record_result (gears ! 0) fasting_solution, record_result (gears ! 1) fasting_solution]
   = Inr [\<lparr>glucose_fold = NaN, atp_fold = Finite 1, growth_fold = Finite 1\<rparr>]"
  by (simp add: fold_improvements_def fold_of_def record_fasting)

lemma zero_baseline_raises:
  "fold_improvements
     [record_result (gears ! 0) no_solution, record_result (gears ! 1) no_solution]
   = Inl ZeroDivisionError"
  by (simp add: fold_improvements_def fold_of_def record_no_solution)

end
